theory Spec2Isabelle
  imports Complex_Main "HOL-Library.Code_Target_Numeral" "HOL-Library.Sublist"
begin

section \<open>Strings and exceptions\<close>

text \<open>
  A Python \<^verbatim>\<open>str\<close> is a sequence of Unicode code points; it is modelled as a list of
  natural numbers. ASCII literals are written with \<open>asc\<close>, other characters by their
  code point.
\<close>

type_synonym pystr = "nat list"

definition asc :: "string \<Rightarrow> pystr" where
  "asc s = map of_char s"

datatype py_exception =
    KeyError | ValueError | OSError | OverflowError | TypeError
  | ParseError | FileNotFoundError | IndexError | ReError | OtherError

section \<open>Python library functions used by the scripts\<close>

text \<open>
  Whitespace as \<^verbatim>\<open>str.isspace\<close>, \<^verbatim>\<open>str.strip\<close> and the pattern \<^verbatim>\<open>\s\<close> see it, and the
  decimal digits of \<^verbatim>\<open>\d\<close> and \<^verbatim>\<open>int\<close> (the blocks of ten consecutive code points of
  category Nd, given by their first element; Unicode 14).
\<close>

definition is_space :: "nat \<Rightarrow> bool" where
  "is_space c = (c \<in> set [9, 10, 11, 12, 13, 28, 29, 30, 31, 32, 133, 160, 5760, 8192, 8193,
     8194, 8195, 8196, 8197, 8198, 8199, 8200, 8201, 8202, 8232, 8233, 8239, 8287, 12288])"

definition digit_blocks :: "nat list" where
  "digit_blocks = [48, 1632, 1776, 1984, 2406, 2534, 2662, 2790, 2918, 3046, 3174, 3302, 3430,
     3558, 3664, 3792, 3872, 4160, 4240, 6112, 6160, 6470, 6608, 6784, 6800, 6992, 7088, 7232,
     7248, 42528, 43216, 43264, 43472, 43504, 43600, 44016, 65296, 66720, 68912, 69734, 69872,
     69942, 70096, 70384, 70736, 70864, 71248, 71360, 71472, 71904, 72016, 72784, 73040, 73120,
     92768, 92864, 93008, 120782, 120792, 120802, 120812, 120822, 123200, 123632, 125264,
     130032]"

definition digit_value :: "nat \<Rightarrow> nat option" where
  "digit_value c =
     (case filter (\<lambda>b. b \<le> c \<and> c < b + 10) digit_blocks of
        [] \<Rightarrow> None
      | b # _ \<Rightarrow> Some (c - b))"

definition is_digit :: "nat \<Rightarrow> bool" where
  "is_digit c = (digit_value c \<noteq> None)"

definition strip_with :: "(nat \<Rightarrow> bool) \<Rightarrow> pystr \<Rightarrow> pystr" where
  "strip_with sp s = rev (dropWhile sp (rev (dropWhile sp s)))"

definition strip :: "pystr \<Rightarrow> pystr" where
  "strip s = strip_with is_space s"













section \<open>The narrative-generation call (\<^verbatim>\<open>AIAnalyzer.call_ai_service\<close>)\<close>

text \<open>
  The configuration dictionary of \<^verbatim>\<open>ai_analyze_report2.py\<close>. The three per-service
  dictionaries are maps; the two scalar entries are read with \<^verbatim>\<open>self.config[...]\<close>, so a
  missing key is \<open>None\<close> here and a \<^verbatim>\<open>KeyError\<close> in the code.
\<close>

record ai_config =
  ai_service :: pystr
  api_keys :: "pystr \<rightharpoonup> pystr"
  api_endpoints :: "pystr \<rightharpoonup> pystr"
  model_names :: "pystr \<rightharpoonup> pystr"
  max_tokens :: "int option"
  temperature :: "rat option"

record ai_request =
  req_endpoint :: pystr
  req_api_key :: pystr
  req_model :: pystr
  req_prompt :: pystr
  req_max_tokens :: int
  req_temperature :: rat

text \<open>
  What one pass through the body of the \<^verbatim>\<open>try\<close> block can do:
  \<^verbatim>\<open>requests.post\<close> raises \<^verbatim>\<open>Timeout\<close>; \<^verbatim>\<open>requests.post\<close> or
  \<^verbatim>\<open>raise_for_status\<close> raise another \<^verbatim>\<open>RequestException\<close> (connection failure, or the
  \<^verbatim>\<open>HTTPError\<close> by which \<^verbatim>\<open>raise_for_status\<close> reports an error status); decoding the reply
  raises anything else; or the reply's content is returned.
\<close>

datatype outcome = Timeout | RequestException | OtherException | Reply pystr

definition get_mock_analysis :: pystr where
  "get_mock_analysis =
  [10, 35, 32, 65, 73, 32, 20998, 26512, 25253, 21578, 10, 10, 35, 35, 32, 24615, 33021, 24635,
   20307, 35780, 20272, 10, 22522, 20110, 25552, 21462, 30340, 24615, 33021, 25351, 26631,
   25968, 25454, 65292, 31995, 32479, 24615, 33021, 34920, 29616, 38656, 35201, 36827, 19968,
   27493, 20998, 26512, 12290, 35831, 21442, 32771, 20197, 19979, 35814, 32454, 20998, 26512,
   65306, 10, 10, 35, 35, 32, 35814, 32454, 20998, 26512, 10, 45, 32, 42, 42, 21709, 24212,
   26102, 38388, 20998, 26512, 42, 42, 65306, 38656, 35201, 26681, 25454, 20855, 20307, 30340,
   24179, 22343, 21709, 24212, 26102, 38388, 12289, 26368, 22823, 21709, 24212, 26102, 38388,
   12289, 57, 48, 47, 57, 53, 47, 57, 57, 30334, 20998, 20301, 21709, 24212, 26102, 38388,
   25968, 25454, 36827, 34892, 35780, 20272, 10, 45, 32, 42, 42, 21534, 21520, 37327, 20998,
   26512, 42, 42, 65306, 38656, 35201, 26681, 25454, 20855, 20307, 30340, 84, 80, 83, 25968,
   25454, 35780, 20272, 31995, 32479, 22788, 29702, 33021, 21147, 10, 45, 32, 42, 42, 38169,
   35823, 29575, 20998, 26512, 42, 42, 65306, 38656, 35201, 26681, 25454, 20855, 20307, 30340,
   38169, 35823, 29575, 25968, 25454, 35780, 20272, 31995, 32479, 31283, 23450, 24615, 10, 45,
   32, 42, 42, 65, 80, 68, 69, 88, 20998, 26512, 42, 42, 65306, 38656, 35201, 26681, 25454,
   20855, 20307, 30340, 65, 80, 68, 69, 88, 20998, 25968, 35780, 20272, 29992, 25143, 28385,
   24847, 24230, 10, 10, 35, 35, 32, 20998, 26512, 35828, 26126, 10, 30001, 20110, 65, 73,
   26381, 21153, 35843, 29992, 26242, 26102, 19981, 21487, 29992, 65292, 26412, 20998, 26512,
   22522, 20110, 32467, 26500, 21270, 25968, 25454, 27169, 26495, 12290, 23454, 38469, 20998,
   26512, 38656, 35201, 65306, 10, 49, 46, 32, 25552, 21462, 83, 116, 97, 116, 105, 115, 116,
   105, 99, 115, 34920, 26684, 20013, 30340, 20855, 20307, 25968, 20540, 10, 50, 46, 32, 20998,
   26512, 21709, 24212, 26102, 38388, 20998, 24067, 24773, 20917, 10, 51, 46, 32, 35780, 20272,
   21534, 21520, 37327, 26159, 21542, 28385, 36275, 19994, 21153, 38656, 27714, 10, 52, 46, 32,
   20998, 26512, 38169, 35823, 31867, 22411, 21644, 21407, 22240, 10, 53, 46, 32, 26681, 25454,
   65, 80, 68, 69, 88, 20998, 25968, 35780, 20272, 29992, 25143, 20307, 39564, 10, 10, 35, 35,
   32, 20248, 21270, 24314, 35758, 26041, 21521, 10, 45, 32, 42, 42, 21709, 24212, 26102, 38388,
   20248, 21270, 42, 42, 65306, 22914, 26524, 24179, 22343, 21709, 24212, 26102, 38388, 36229,
   36807, 49, 48, 48, 48, 109, 115, 65292, 38656, 35201, 20248, 21270, 31995, 32479, 24615,
   33021, 10, 45, 32, 42, 42, 21534, 21520, 37327, 25552, 21319, 42, 42, 65306, 22914, 26524,
   84, 80, 83, 26080, 27861, 28385, 36275, 19994, 21153, 23792, 20540, 38656, 27714, 65292,
   38656, 35201, 22686, 21152, 31995, 32479, 23481, 37327, 10, 45, 32, 42, 42, 38169, 35823,
   29575, 38477, 20302, 42, 42, 65306, 22914, 26524, 23384, 22312, 38169, 35823, 65292, 38656,
   35201, 20998, 26512, 38169, 35823, 21407, 22240, 24182, 20462, 22797, 10, 45, 32, 42, 42,
   29992, 25143, 20307, 39564, 25913, 21892, 42, 42, 65306, 26681, 25454, 65, 80, 68, 69, 88,
   20998, 25968, 37319, 21462, 30456, 24212, 25514, 26045, 25552, 21319, 29992, 25143, 28385,
   24847, 24230, 10, 10, 35, 35, 32, 24635, 32467, 10, 35831, 20351, 29992, 80, 121, 116, 104,
   111, 110, 33050, 26412, 35299, 26512, 72, 84, 77, 76, 25253, 21578, 65292, 25552, 21462,
   20851, 38190, 24615, 33021, 25351, 26631, 65292, 28982, 21518, 22522, 20110, 32467, 26500,
   21270, 25968, 25454, 29983, 25104, 35814, 32454, 30340, 20998, 26512, 32467, 35770, 12290,
   10]"

definition max_retries :: nat where
  "max_retries = 3"

definition initial_retry_delay :: nat where
  "initial_retry_delay = 2"

text \<open>
  The \<^verbatim>\<open>for attempt in range(max_retries)\<close> loop. The service is a function from the
  request and the attempt number to an outcome; \<open>slept\<close> records the arguments of
  \<^verbatim>\<open>time.sleep\<close> in order. The result \<open>None\<close> stands for falling out of the loop, where
  Python returns \<^verbatim>\<open>None\<close>. Building the payload reads \<^verbatim>\<open>self.config["max_tokens"]\<close>
  and \<^verbatim>\<open>self.config["temperature"]\<close> inside the \<^verbatim>\<open>try\<close>: a missing key is caught by
  \<^verbatim>\<open>except Exception\<close>.
\<close>

definition attempt_outcome ::
  "ai_config \<Rightarrow> (ai_request \<Rightarrow> nat \<Rightarrow> outcome) \<Rightarrow> pystr \<Rightarrow> pystr \<Rightarrow> pystr \<Rightarrow> pystr \<Rightarrow>
   nat \<Rightarrow> outcome" where
  "attempt_outcome cfg post api_key api_endpoint model_name prompt attempt =
     (case (max_tokens cfg, temperature cfg) of
        (Some mt, Some tp) \<Rightarrow>
          post \<lparr>req_endpoint = api_endpoint, req_api_key = api_key,
                req_model = model_name, req_prompt = prompt,
                req_max_tokens = mt, req_temperature = tp\<rparr> attempt
      | _ \<Rightarrow> OtherException)"

function retry_loop ::
  "ai_config \<Rightarrow> (ai_request \<Rightarrow> nat \<Rightarrow> outcome) \<Rightarrow> pystr \<Rightarrow> pystr \<Rightarrow> pystr \<Rightarrow> pystr \<Rightarrow>
   nat \<Rightarrow> nat \<Rightarrow> nat list \<Rightarrow> pystr option \<times> nat list" where
  "retry_loop cfg post api_key api_endpoint model_name prompt attempt retry_delay slept =
     (if attempt < max_retries then
        (case attempt_outcome cfg post api_key api_endpoint model_name prompt attempt of
           Reply content \<Rightarrow> (Some content, slept)
         | Timeout \<Rightarrow>
             if attempt < max_retries - 1
             then retry_loop cfg post api_key api_endpoint model_name prompt
                    (attempt + 1) (retry_delay * 2) (slept @ [retry_delay])
             else (Some get_mock_analysis, slept)
         | RequestException \<Rightarrow> (Some get_mock_analysis, slept)
         | OtherException \<Rightarrow> (Some get_mock_analysis, slept))
      else (None, slept))"
  by pat_completeness auto
termination
  by (relation "measure (\<lambda>(cfg, post, k, e, m, p, attempt, d, s). max_retries - attempt)") auto

definition call_ai_service ::
  "ai_config \<Rightarrow> (ai_request \<Rightarrow> nat \<Rightarrow> outcome) \<Rightarrow> pystr \<Rightarrow>
   py_exception + (pystr option \<times> nat list)" where
  "call_ai_service cfg post prompt =
     (case api_keys cfg (ai_service cfg) of
        None \<Rightarrow> Inl KeyError
      | Some api_key \<Rightarrow>
     (case api_endpoints cfg (ai_service cfg) of
        None \<Rightarrow> Inl KeyError
      | Some api_endpoint \<Rightarrow>
     (case model_names cfg (ai_service cfg) of
        None \<Rightarrow> Inl KeyError
      | Some model_name \<Rightarrow>
          if api_key = [] then Inr (Some get_mock_analysis, [])
          else Inr (retry_loop cfg post api_key api_endpoint model_name prompt
                      0 initial_retry_delay []))))"

text \<open>The dictionary \<^verbatim>\<open>default_config\<close> of \<^verbatim>\<open>load_config\<close>.\<close>

definition default_config :: ai_config where
  "default_config =
     \<lparr>ai_service = asc ''deepseek'',
      api_keys = [asc ''deepseek'' \<mapsto> [], asc ''qianwen'' \<mapsto> [], asc ''moon'' \<mapsto> [],
                  asc ''yunwu'' \<mapsto> []],
      api_endpoints =
        [asc ''deepseek'' \<mapsto> asc ''https://api.deepseek.com/v1/chat/completions'',
         asc ''qianwen'' \<mapsto> asc ''https://dashscope.aliyuncs.com/compatible-mode/v1'',
         asc ''moon'' \<mapsto> asc ''https://api.moonshot.cn/v1/chat/completions'',
         asc ''yunwu'' \<mapsto> asc ''https://api.yunwuai.com/v1/chat/completions''],
      model_names =
        [asc ''deepseek'' \<mapsto> asc ''deepseek-chat'',
         asc ''qianwen'' \<mapsto> asc ''ep-20240101000000-xxxx'',
         asc ''moon'' \<mapsto> asc ''moonshot-v1-8k'',
         asc ''yunwu'' \<mapsto> asc ''yunwu-7b''],
      max_tokens = Some 2000,
      temperature = Some (7 / 10)\<rparr>"

text \<open>What the loop returns for the outcome it stops at.\<close>

fun narrative_of :: "outcome \<Rightarrow> pystr" where
  "narrative_of (Reply content) = content"
| "narrative_of _ = get_mock_analysis"

text \<open>A service that never answers in time, and one that answers on the third call.\<close>

definition service_down :: "ai_request \<Rightarrow> nat \<Rightarrow> outcome" where
  "service_down r attempt = Timeout"

definition service_slow :: "ai_request \<Rightarrow> nat \<Rightarrow> outcome" where
  "service_slow r attempt = (if attempt < 2 then Timeout else Reply (req_prompt r))"

section \<open>Throughput from a result log (\<^verbatim>\<open>sla_linux_jmeter563.py\<close>)\<close>































section \<open>Per-label latency statistics (\<^verbatim>\<open>enhanced_html_report.py\<close>)\<close>

text \<open>
  The percentile indices are computed in floating point: \<^verbatim>\<open>int(len(sorted_times) * 0.9)\<close>.
  The product is the IEEE 754 double nearest to the exact product (ties to even), and
  \<^verbatim>\<open>int\<close> truncates it. A positive double is a natural number of at most 53 significant bits
  times a power of two; \<open>round_to_53\<close> rounds a natural number to 53 significant bits.
\<close>

function bit_length :: "nat \<Rightarrow> nat" where
  "bit_length n = (if n = 0 then 0 else Suc (bit_length (n div 2)))"
  by pat_completeness auto
termination
  by (relation "measure id") auto

definition round_to_53 :: "nat \<Rightarrow> nat" where
  "round_to_53 m =
     (if m < 2 ^ 53 then m
      else
        let s = bit_length m - 53;
            q = m div 2 ^ s;
            r = m mod 2 ^ s;
            half = 2 ^ (s - 1)
        in (if half < r \<or> (r = half \<and> odd q) then q + 1 else q) * 2 ^ s)"

text \<open>
  The literals: \<^verbatim>\<open>0.9\<close>, \<^verbatim>\<open>0.95\<close> and \<^verbatim>\<open>0.99\<close> denote the doubles
  \<open>double_0_9 / 2^53\<close>, \<open>double_0_95 / 2^53\<close> and \<open>double_0_99 / 2^53\<close>.
\<close>

definition double_0_9 :: nat where
  "double_0_9 = 8106479329266893"

definition double_0_95 :: nat where
  "double_0_95 = 8556839292003942"

definition double_0_99 :: nat where
  "double_0_99 = 8917127262193582"

text \<open>
  \<^verbatim>\<open>int(n * c)\<close> for a length \<open>n\<close> and a double \<open>c = mant / 2^53\<close>: \<open>n\<close> becomes a
  double, the doubles are multiplied, the product is truncated.
\<close>

definition int_of_product :: "nat \<Rightarrow> nat \<Rightarrow> nat" where
  "int_of_product n mant = round_to_53 (round_to_53 n * mant) div 2 ^ 53"

text \<open>\<^verbatim>\<open>xs[i]\<close> for a list and a non-negative index.\<close>

definition py_index :: "'a list \<Rightarrow> nat \<Rightarrow> py_exception + 'a" where
  "py_index xs i = (if i < length xs then Inr (xs ! i) else Inl IndexError)"

record 'a latency =
  medianResTime :: 'a
  minResTime :: 'a
  maxResTime :: 'a
  pct90 :: 'a
  pct95 :: 'a
  pct99 :: 'a

text \<open>
  The finalisation of one label in \<^verbatim>\<open>generate_enhanced_html_report\<close>, for the list
  \<^verbatim>\<open>stat['times']\<close>, whose length is \<^verbatim>\<open>stat['sampleCount']\<close>. A label without samples is
  skipped (\<open>None\<close>). The elapsed times are values of a linear order: floats that are numbers.
\<close>

definition finalize_latency :: "'a::linorder list \<Rightarrow> py_exception + 'a latency option" where
  "finalize_latency elapsed =
     (case elapsed of
        [] \<Rightarrow> Inr None
      | t # ts \<Rightarrow>
          let sorted_times = sort elapsed;
              n = length sorted_times
          in case py_index sorted_times (length elapsed div 2) of
               Inl e \<Rightarrow> Inl e
             | Inr median \<Rightarrow>
          (case py_index sorted_times (int_of_product n double_0_9) of
               Inl e \<Rightarrow> Inl e
             | Inr p90 \<Rightarrow>
          (case py_index sorted_times (int_of_product n double_0_95) of
               Inl e \<Rightarrow> Inl e
             | Inr p95 \<Rightarrow>
          (case py_index sorted_times (int_of_product n double_0_99) of
               Inl e \<Rightarrow> Inl e
             | Inr p99 \<Rightarrow>
                 Inr (Some \<lparr>medianResTime = median,
                            minResTime = fold min ts t,
                            maxResTime = fold max ts t,
                            pct90 = p90, pct95 = p95, pct99 = p99\<rparr>)))))"

text \<open>Twenty elapsed times, for the examples.\<close>

definition twenty_samples :: "int list" where
  "twenty_samples = [120, 15, 300, 42, 88, 91, 17, 230, 64, 55, 73, 19, 101, 250, 33, 47, 60,
     12, 500, 75]"

section \<open>Regular expressions as the scripts use them (Python's \<^verbatim>\<open>re\<close>)\<close>

text \<open>
  The patterns of the scripts are sequences of single characters and character classes,
  repetitions of a class (greedy or lazy), the assertions \<^verbatim>\<open>^\<close> and \<^verbatim>\<open>$\<close>, unnested capturing
  groups, and alternatives. They are matched as \<^verbatim>\<open>re\<close> matches: by backtracking, trying a
  greedy repetition longest first, a lazy one shortest first, and alternatives from left to
  right.
\<close>

record re_flags =
  ignorecase :: bool
  multiline :: bool
  dotall :: bool

definition no_flags :: re_flags where
  "no_flags = \<lparr>ignorecase = False, multiline = False, dotall = False\<rparr>"


definition MULTILINE :: re_flags where
  "MULTILINE = \<lparr>ignorecase = False, multiline = True, dotall = False\<rparr>"

definition IGNORECASE_DOTALL :: re_flags where
  "IGNORECASE_DOTALL = \<lparr>ignorecase = True, multiline = False, dotall = True\<rparr>"

datatype atom = Chr nat | Space | Digit

datatype cset = Atom atom | Dot | OneOf "atom list" | NoneOf "atom list"

datatype item =
    One cset
  | Rep cset nat bool
  | Bol
  | Eol
  | Open
  | Close
  | Alt "item list" "item list"

text \<open>
  Case-insensitive comparison of a pattern letter with a character: the ASCII letters, and
  the four other characters that \<^verbatim>\<open>re.IGNORECASE\<close> equates with \<^verbatim>\<open>i\<close>, \<^verbatim>\<open>s\<close> and \<^verbatim>\<open>k\<close>
  (U+0130, U+0131, U+017F, U+212A). This is complete for ASCII pattern characters, which
  is what the case-insensitive patterns of the scripts consist of.
\<close>

definition casefold :: "nat \<Rightarrow> nat" where
  "casefold c =
     (if 65 \<le> c \<and> c \<le> 90 then c + 32
      else if c = 304 \<or> c = 305 then 105
      else if c = 383 then 115
      else if c = 8490 then 107
      else c)"

fun atom_match :: "re_flags \<Rightarrow> atom \<Rightarrow> nat \<Rightarrow> bool" where
  "atom_match f (Chr c) x = (if ignorecase f then casefold x = casefold c else x = c)"
| "atom_match f Space x = is_space x"
| "atom_match f Digit x = is_digit x"

fun cset_match :: "re_flags \<Rightarrow> cset \<Rightarrow> nat \<Rightarrow> bool" where
  "cset_match f (Atom a) x = atom_match f a x"
| "cset_match f Dot x = (dotall f \<or> x \<noteq> 10)"
| "cset_match f (OneOf as) x = list_ex (\<lambda>a. atom_match f a x) as"
| "cset_match f (NoneOf as) x = (\<not> list_ex (\<lambda>a. atom_match f a x) as)"

fun item_size :: "item \<Rightarrow> nat" where
  "item_size (Alt a b) = Suc (sum_list (map item_size a) + sum_list (map item_size b))"
| "item_size _ = 1"

definition at_bol :: "re_flags \<Rightarrow> nat option \<Rightarrow> bool" where
  "at_bol f prev = (prev = None \<or> (multiline f \<and> prev = Some 10))"

definition at_eol :: "re_flags \<Rightarrow> pystr \<Rightarrow> bool" where
  "at_eol f s = (s = [] \<or> (if multiline f then hd s = 10 else s = [10]))"

text \<open>
  \<open>re_match f adv items prev s marks\<close> matches \<open>items\<close> at the front of \<open>s\<close>; \<open>prev\<close> is
  the character before \<open>s\<close> in the text (\<open>None\<close> at its start). With \<open>adv = Some n\<close> a match
  may not end where \<open>n\<close> characters remain (this is how a match that is not empty is asked
  for). The result is the character before the rest, the rest after the match, and the text
  positions (as the remaining text) at which the group marks were passed, last first.
\<close>

function re_match ::
  "re_flags \<Rightarrow> nat option \<Rightarrow> item list \<Rightarrow> nat option \<Rightarrow> pystr \<Rightarrow> pystr list \<Rightarrow>
   (nat option \<times> pystr \<times> pystr list) option" where
  "re_match f adv [] prev s marks =
     (if adv = Some (length s) then None else Some (prev, s, marks))"
| "re_match f adv (One c # items) prev [] marks = None"
| "re_match f adv (One c # items) prev (x # xs) marks =
     (if cset_match f c x then re_match f adv items (Some x) xs marks else None)"
| "re_match f adv (Rep c k greedy # items) prev [] marks =
     (if 0 < k then None else re_match f adv items prev [] marks)"
| "re_match f adv (Rep c k greedy # items) prev (x # xs) marks =
     (if 0 < k then
        (if cset_match f c x
         then re_match f adv (Rep c (k - 1) greedy # items) (Some x) xs marks
         else None)
      else if greedy then
        (if cset_match f c x then
           (case re_match f adv (Rep c 0 greedy # items) (Some x) xs marks of
              Some r \<Rightarrow> Some r
            | None \<Rightarrow> re_match f adv items prev (x # xs) marks)
         else re_match f adv items prev (x # xs) marks)
      else
        (case re_match f adv items prev (x # xs) marks of
           Some r \<Rightarrow> Some r
         | None \<Rightarrow>
             if cset_match f c x then re_match f adv (Rep c 0 greedy # items) (Some x) xs marks
             else None))"
| "re_match f adv (Bol # items) prev s marks =
     (if at_bol f prev then re_match f adv items prev s marks else None)"
| "re_match f adv (Eol # items) prev s marks =
     (if at_eol f s then re_match f adv items prev s marks else None)"
| "re_match f adv (Open # items) prev s marks = re_match f adv items prev s (s # marks)"
| "re_match f adv (Close # items) prev s marks = re_match f adv items prev s (s # marks)"
| "re_match f adv (Alt a b # items) prev s marks =
     (case re_match f adv (a @ items) prev s marks of
        Some r \<Rightarrow> Some r
      | None \<Rightarrow> re_match f adv (b @ items) prev s marks)"
  by pat_completeness auto
termination
  by (relation "measures [\<lambda>(f, adv, items, prev, s, marks). sum_list (map item_size items),
                          \<lambda>(f, adv, items, prev, s, marks). length s]") auto

text \<open>
  A match found by \<^verbatim>\<open>re.search\<close>: the text from where the match starts, the rest after
  it, and the group marks in the order they were passed.
\<close>

record re_found =
  found_at :: pystr
  found_rest :: pystr
  found_prev :: "nat option"
  found_marks :: "pystr list"

definition between :: "pystr \<Rightarrow> pystr \<Rightarrow> pystr" where
  "between s rest = take (length s - length rest) s"

definition group0 :: "re_found \<Rightarrow> pystr" where
  "group0 m = between (found_at m) (found_rest m)"

text \<open>\<^verbatim>\<open>m.group(k)\<close> for \<open>k \<ge> 1\<close>; a group that did not take part is the empty string here.\<close>

definition group :: "re_found \<Rightarrow> nat \<Rightarrow> pystr" where
  "group m k =
     (if 2 * k \<le> length (found_marks m) \<and> 0 < k
      then between (found_marks m ! (2 * k - 2)) (found_marks m ! (2 * k - 1))
      else [])"



text \<open>
  \<^verbatim>\<open>re.findall\<close> and \<^verbatim>\<open>re.sub\<close> go through the non-overlapping matches from left to right.
  \<open>each_match\<close> yields the pieces of the text in order: a character of unmatched text, or
  a match. After an empty match the scan stays where it is and asks for a match that is not
  empty (\<open>must_advance\<close>); if there is none it moves on by one character.
\<close>

datatype piece = Unmatched pystr | Matched re_found

lemma re_match_length:
  "re_match f adv items prev s marks = Some (p, rest, marks') \<Longrightarrow> length rest \<le> length s"
  by (induction f adv items prev s marks arbitrary: p rest marks' rule: re_match.induct)
    (fastforce split: if_splits option.splits)+

lemma re_match_advances:
  "re_match f (Some n) items prev s marks = Some (p, rest, marks') \<Longrightarrow> length rest \<noteq> n"
  by (induction f "Some n" items prev s marks arbitrary: p rest marks' rule: re_match.induct)
    (fastforce split: if_splits option.splits)+

lemma re_match_shorter:
  "re_match f (Some (length s)) items prev s marks = Some (p, rest, marks') \<Longrightarrow>
   length rest < length s"
  using re_match_length [of f "Some (length s)" items prev s marks p rest marks']
    re_match_advances [of f "length s" items prev s marks p rest marks']
  by simp

function each_match :: "re_flags \<Rightarrow> item list \<Rightarrow> nat option \<Rightarrow> pystr \<Rightarrow> piece list" where
  "each_match f items prev s =
     (case re_match f None items prev s [] of
        Some (p, rest, marks) \<Rightarrow>
          Matched \<lparr>found_at = s, found_rest = rest, found_prev = p, found_marks = rev marks\<rparr> #
            (if length rest < length s then each_match f items p rest
             else
               (case re_match f (Some (length s)) items prev s [] of
                  Some (p', rest', marks') \<Rightarrow>
                    Matched \<lparr>found_at = s, found_rest = rest', found_prev = p',
                             found_marks = rev marks'\<rparr> # each_match f items p' rest'
                | None \<Rightarrow>
                    (case s of
                       [] \<Rightarrow> []
                     | x # xs \<Rightarrow> Unmatched [x] # each_match f items (Some x) xs)))
      | None \<Rightarrow>
          (case s of
             [] \<Rightarrow> []
           | x # xs \<Rightarrow> Unmatched [x] # each_match f items (Some x) xs))"
  by pat_completeness auto
termination
  by (relation "measure (\<lambda>(f, items, prev, s). length s)")
    (auto dest!: re_match_shorter)

text \<open>\<^verbatim>\<open>re.findall\<close> for a pattern with no group (whole matches) and with one group.\<close>

fun matches_of :: "piece list \<Rightarrow> re_found list" where
  "matches_of [] = []"
| "matches_of (Matched m # ps) = m # matches_of ps"
| "matches_of (Unmatched u # ps) = matches_of ps"

definition re_findall0 :: "item list \<Rightarrow> pystr \<Rightarrow> re_flags \<Rightarrow> pystr list" where
  "re_findall0 items s f = map group0 (matches_of (each_match f items None s))"

definition re_findall1 :: "item list \<Rightarrow> pystr \<Rightarrow> re_flags \<Rightarrow> pystr list" where
  "re_findall1 items s f = map (\<lambda>m. group m 1) (matches_of (each_match f items None s))"










definition lazy_group :: "item list" where
  "lazy_group = [Open, Rep Dot 0 False, Close]"

definition digits1 :: "item list" where
  "digits1 = [Rep (Atom Digit) 1 True]"

section \<open>The report patcher (\<^verbatim>\<open>update_original_report\<close>)\<close>

























section \<open>What a pattern without assertions, groups and alternatives matches\<close>











section \<open>Properties of the narrative-generation call\<close>

lemma retry_loop_closed:
  "retry_loop cfg post k e m p 0 initial_retry_delay [] =
     (let oc = attempt_outcome cfg post k e m p in
      if oc 0 \<noteq> Timeout then (Some (narrative_of (oc 0)), [])
      else if oc 1 \<noteq> Timeout then (Some (narrative_of (oc 1)), [2])
      else (Some (narrative_of (oc 2)), [2, 4]))"
  by (auto simp add: max_retries_def initial_retry_delay_def Let_def numeral_2_eq_2
      split: outcome.splits)

text \<open>
  Claim C5, as the code has it. When the selected service has an entry in
  \<^verbatim>\<open>api_keys\<close>, \<^verbatim>\<open>api_endpoints\<close> and \<^verbatim>\<open>model_names\<close>, \<^verbatim>\<open>call_ai_service\<close> returns a
  narrative and raises nothing: with an empty key it returns the placeholder at once;
  otherwise it makes at most three attempts, sleeps 2 and then 4 seconds after the first and
  second timeout, and returns the reply of the first attempt that does not time out, or the
  placeholder when that attempt fails or when all three time out.
\<close>

theorem call_ai_service_degrades:
  assumes "api_keys cfg (ai_service cfg) = Some k"
    and "api_endpoints cfg (ai_service cfg) = Some e"
    and "model_names cfg (ai_service cfg) = Some m"
  shows "call_ai_service cfg post prompt =
     (let oc = attempt_outcome cfg post k e m prompt in
      if k = [] then Inr (Some get_mock_analysis, [])
      else if oc 0 \<noteq> Timeout then Inr (Some (narrative_of (oc 0)), [])
      else if oc 1 \<noteq> Timeout then Inr (Some (narrative_of (oc 1)), [2])
      else Inr (Some (narrative_of (oc 2)), [2, 4]))"
  unfolding call_ai_service_def retry_loop_closed using assms by (simp add: Let_def)

theorem call_ai_service_degrades_witness:
  "call_ai_service
     (default_config\<lparr>api_keys := (api_keys default_config)(asc ''deepseek'' \<mapsto> asc ''sk-1'')\<rparr>)
     service_slow (asc ''hi'') = Inr (Some (asc ''hi''), [2, 4])"
  using call_ai_service_degrades
    [of "default_config\<lparr>api_keys := (api_keys default_config)(asc ''deepseek'' \<mapsto> asc ''sk-1'')\<rparr>"
      "asc ''sk-1''" "asc ''https://api.deepseek.com/v1/chat/completions''"
      "asc ''deepseek-chat''" service_slow "asc ''hi''"]
  by (simp add: default_config_def attempt_outcome_def service_slow_def asc_def)

text \<open>
  As stated, C5 fails: the three configuration lookups stand before the \<^verbatim>\<open>try\<close>, so a
  configuration that selects a service without entries raises \<^verbatim>\<open>KeyError\<close> to the caller.
\<close>

theorem call_ai_service_raises_counterexample:
  "call_ai_service (default_config\<lparr>ai_service := asc ''openai''\<rparr>) service_down [] = Inl KeyError"
  by (simp add: call_ai_service_def default_config_def asc_def)

section \<open>Properties of the throughput extraction\<close>










section \<open>Properties of the latency statistics\<close>

lemma bit_length_bounds: "0 < n \<Longrightarrow> 2 ^ (bit_length n - 1) \<le> n \<and> n < 2 ^ bit_length n"
proof (induction n rule: bit_length.induct)
  case (1 n)
  show ?case
  proof (cases "n div 2 = 0")
    case True
    with "1.prems" have "n = 1" by (simp add: div_eq_0_iff) 
    then show ?thesis by simp
  next
    case False
    then have pos: "0 < n div 2" by simp
    from "1.IH" [OF _ pos] "1.prems"
    have ih: "2 ^ (bit_length (n div 2) - 1) \<le> n div 2" "n div 2 < 2 ^ bit_length (n div 2)"
      by auto
    have bl: "bit_length n = Suc (bit_length (n div 2))" using "1.prems" by simp
    have p: "0 < bit_length (n div 2)" using pos by (subst bit_length.simps) simp
    then have e: "2 ^ (bit_length (n div 2)) = 2 * (2::nat) ^ (bit_length (n div 2) - 1)"
      by (cases "bit_length (n div 2)") simp_all
    show ?thesis using ih bl e by (simp del: bit_length.simps) linarith
  qed
qed

declare bit_length.simps [simp del]

lemma bit_length_le: "m < 2 ^ k \<Longrightarrow> bit_length m \<le> k"
proof (cases "m = 0")
  case True
  then show ?thesis by (simp add: bit_length.simps)
next
  case False
  assume "m < 2 ^ k"
  with False bit_length_bounds [of m] have "(2::nat) ^ (bit_length m - 1) < 2 ^ k"
    by (meson le_less_trans neq0_conv)
  then have "bit_length m - 1 < k" by (simp only: power_strict_increasing_iff one_less_numeral_iff semiring_norm)
  then show ?thesis by simp
qed

lemma bit_length_ge: "2 ^ k \<le> m \<Longrightarrow> k < bit_length m"
proof -
  assume a: "2 ^ k \<le> m"
  then have "0 < m" by (cases "m = 0") simp_all
  with bit_length_bounds [of m] a have "(2::nat) ^ k < 2 ^ bit_length m"
    by (meson le_less_trans)
  then show ?thesis by (simp only: power_strict_increasing_iff one_less_numeral_iff semiring_norm)
qed

lemma multiples_step:
  fixes a x y :: nat
  assumes "a dvd x" "a dvd y" "x < y"
  shows "x + a \<le> y"
proof -
  from assms obtain p q where x: "x = a * p" and y: "y = a * q" by (auto elim!: dvdE)
  with assms(3) have "p < q" by (cases "a = 0") simp_all
  then have "Suc p \<le> q" by simp
  then have "a * Suc p \<le> a * q" by (rule mult_le_mono2)
  then show ?thesis using x y by simp
qed

lemma round_to_53_props:
  assumes lo: "2 ^ 53 \<le> m" and hi: "m < 2 ^ 106"
  obtains h where "0 < h" "h * 2 ^ 53 \<le> m" "m < h * 2 ^ 54"
    "m \<le> round_to_53 m + h" "round_to_53 m \<le> m + h"
    "(2 * h) dvd round_to_53 m" "(2 * h) dvd 2 ^ 53"
proof -
  define s where "s = bit_length m - 53"
  define h :: nat where "h = 2 ^ (s - 1)"
  define q where "q = m div 2 ^ s"
  define r where "r = m mod 2 ^ s"
  have L1: "53 < bit_length m" using lo by (rule bit_length_ge)
  have L2: "bit_length m \<le> 106" using hi by (rule bit_length_le)
  have s1: "1 \<le> s" and s2: "s \<le> 53" using L1 L2 by (simp_all add: s_def)
  have pos: "0 < m" using lo by (cases "m = 0") simp_all
  have two_h: "2 ^ s = 2 * h"
    using s1 by (cases s) (simp_all add: h_def)
  have bl: "bit_length m = s + 53" using L1 by (simp add: s_def)
  have "bit_length m - 1 = (s - 1) + 53" using s1 bl by simp
  then have "(2::nat) ^ (bit_length m - 1) = h * 2 ^ 53"
    by (simp only: power_add h_def)
  then have b1: "h * 2 ^ 53 \<le> m" using bit_length_bounds [OF pos] by simp
  have "(2::nat) ^ bit_length m = 2 ^ s * 2 ^ 53" by (simp only: bl power_add)
  then have "(2::nat) ^ bit_length m = h * 2 ^ 54" using two_h by simp
  then have b2: "m < h * 2 ^ 54" using bit_length_bounds [OF pos] by simp
  have hpos: "0 < h" by (simp add: h_def)
  have split: "m = q * (2 * h) + r"
    unfolding q_def r_def two_h by (rule div_mult_mod_eq [symmetric])
  have rlt: "r < 2 * h"
    unfolding r_def two_h using hpos by (intro mod_less_divisor) simp
  have R0: "round_to_53 m =
      (if 2 ^ (s - 1) < m mod 2 ^ s \<or> (m mod 2 ^ s = 2 ^ (s - 1) \<and> odd (m div 2 ^ s))
       then m div 2 ^ s + 1 else m div 2 ^ s) * 2 ^ s"
    unfolding round_to_53_def Let_def s_def using lo by (simp only: not_less [symmetric] if_False)
  have R: "round_to_53 m = (if h < r \<or> (r = h \<and> odd q) then q + 1 else q) * (2 * h)"
    unfolding two_h [symmetric] unfolding q_def r_def h_def by (rule R0)
  define qh where "qh = q * (2 * h)"
  have up: "round_to_53 m = qh + 2 * h \<and> h \<le> r" if "h < r \<or> (r = h \<and> odd q)"
    using that by (auto simp add: R qh_def)
  have dn: "round_to_53 m = qh \<and> r \<le> h" if "\<not> (h < r \<or> (r = h \<and> odd q))"
    using that by (auto simp add: R qh_def)
  have split': "m = qh + r" using split by (simp only: qh_def)
  have b3: "m \<le> round_to_53 m + h"
    using up dn split' rlt by (cases "h < r \<or> (r = h \<and> odd q)") linarith+
  have b4: "round_to_53 m \<le> m + h"
    using up dn split' rlt by (cases "h < r \<or> (r = h \<and> odd q)") linarith+
  have b5: "(2 * h) dvd round_to_53 m" by (simp only: R dvd_triv_right)
  have "(2::nat) ^ 53 = 2 ^ s * 2 ^ (53 - s)" using s2 by (simp add: power_add [symmetric])
  then have b6: "(2 * h) dvd 2 ^ 53" using two_h by (metis dvd_triv_left)
  from hpos b1 b2 b3 b4 b5 b6 show ?thesis by (rule that)
qed

lemma int_of_product_0_9:
  assumes "0 < n" and "n < 2 ^ 46"
  shows "int_of_product n double_0_9 = (9 * n) div 10"
proof -
  define M where "M = n * 8106479329266893"
  define R where "R = round_to_53 M"
  define k where "k = (9 * n) div 10"
  define j where "j = (9 * n) mod 10"
  have nk: "9 * n = 10 * k + j" and jlt: "j < 10"
    by (simp_all add: k_def j_def)
  have nlt: "n < 70368744177664" using assms(2) by simp
  have rn: "round_to_53 n = n" using nlt by (simp add: round_to_53_def)
  have bounds: "k * 9007199254740992 \<le> R \<and> R < Suc k * 9007199254740992"
  proof (cases "M < 9007199254740992")
    case True
    then have "n = 1" using assms(1) by (simp add: M_def)
    then have "M = 8106479329266893" "k = 0" by (simp_all add: M_def k_def)
    then show ?thesis by (simp add: R_def round_to_53_def)
  next
    case False
    then have lo: "2 ^ 53 \<le> M" by simp
    have "M < 70368744177664 * 9007199254740992" using nlt by (simp add: M_def)
    then have hi: "M < 2 ^ 106" by simp
    from round_to_53_props [OF lo hi] obtain h where h: "0 < h"
      "h * 2 ^ 53 \<le> M" "M < h * 2 ^ 54" "M \<le> R + h" "R \<le> M + h"
      "(2 * h) dvd R" "(2 * h) dvd 2 ^ 53"
      unfolding R_def by blast
    have h1: "h * 9007199254740992 \<le> M" and h2: "M < h * 18014398509481984"
      using h(2,3) by simp_all
    have upper: "R < Suc k * 9007199254740992"
      using h1 h(5) nk jlt nlt by (simp add: M_def)
    have lower: "k * 9007199254740992 \<le> R"
    proof (rule ccontr)
      assume "\<not> k * 9007199254740992 \<le> R"
      then have lt: "R < k * 2 ^ 53" by simp
      have "(2 * h) dvd k * 2 ^ 53" using h(7) by (rule dvd_mult)
      with h(6) lt have "R + 2 * h \<le> k * 2 ^ 53" by (intro multiples_step)
      then have "R + 2 * h \<le> k * 9007199254740992" by simp
      then show False
        using h(1) h1 h2 h(4) nk jlt nlt by (simp add: M_def)
    qed
    from lower upper show ?thesis ..
  qed
  have "int_of_product n double_0_9 = R div 9007199254740992"
    by (simp add: int_of_product_def rn R_def M_def double_0_9_def)
  also have "\<dots> = k"
    using bounds by (intro div_nat_eqI) (simp_all add: mult.commute)
  finally show ?thesis by (simp only: k_def)
qed

lemma int_of_product_0_95:
  assumes "0 < n" and "n < 2 ^ 46"
  shows "int_of_product n double_0_95 = (19 * n) div 20"
proof -
  define M where "M = n * 8556839292003942"
  define R where "R = round_to_53 M"
  define k where "k = (19 * n) div 20"
  define j where "j = (19 * n) mod 20"
  have nk: "19 * n = 20 * k + j" and jlt: "j < 20"
    by (simp_all add: k_def j_def)
  have nlt: "n < 70368744177664" using assms(2) by simp
  have rn: "round_to_53 n = n" using nlt by (simp add: round_to_53_def)
  have bounds: "k * 9007199254740992 \<le> R \<and> R < Suc k * 9007199254740992"
  proof (cases "M < 9007199254740992")
    case True
    then have "n = 1" using assms(1) by (simp add: M_def)
    then have "M = 8556839292003942" "k = 0" by (simp_all add: M_def k_def)
    then show ?thesis by (simp add: R_def round_to_53_def)
  next
    case False
    then have lo: "2 ^ 53 \<le> M" by simp
    have "M < 70368744177664 * 9007199254740992" using nlt by (simp add: M_def)
    then have hi: "M < 2 ^ 106" by simp
    from round_to_53_props [OF lo hi] obtain h where h: "0 < h"
      "h * 2 ^ 53 \<le> M" "M < h * 2 ^ 54" "M \<le> R + h" "R \<le> M + h"
      "(2 * h) dvd R" "(2 * h) dvd 2 ^ 53"
      unfolding R_def by blast
    have h1: "h * 9007199254740992 \<le> M" and h2: "M < h * 18014398509481984"
      using h(2,3) by simp_all
    have upper: "R < Suc k * 9007199254740992"
      using h1 h(5) nk jlt nlt by (simp add: M_def)
    have lower: "k * 9007199254740992 \<le> R"
    proof (rule ccontr)
      assume "\<not> k * 9007199254740992 \<le> R"
      then have lt: "R < k * 2 ^ 53" by simp
      have "(2 * h) dvd k * 2 ^ 53" using h(7) by (rule dvd_mult)
      with h(6) lt have "R + 2 * h \<le> k * 2 ^ 53" by (intro multiples_step)
      then have "R + 2 * h \<le> k * 9007199254740992" by simp
      then show False
        using h(1) h1 h2 h(4) nk jlt nlt by (simp add: M_def)
    qed
    from lower upper show ?thesis ..
  qed
  have "int_of_product n double_0_95 = R div 9007199254740992"
    by (simp add: int_of_product_def rn R_def M_def double_0_95_def)
  also have "\<dots> = k"
    using bounds by (intro div_nat_eqI) (simp_all add: mult.commute)
  finally show ?thesis by (simp only: k_def)
qed

lemma int_of_product_0_99:
  assumes "0 < n" and "n < 2 ^ 46"
  shows "int_of_product n double_0_99 = (99 * n) div 100"
proof -
  define M where "M = n * 8917127262193582"
  define R where "R = round_to_53 M"
  define k where "k = (99 * n) div 100"
  define j where "j = (99 * n) mod 100"
  have nk: "99 * n = 100 * k + j" and jlt: "j < 100"
    by (simp_all add: k_def j_def)
  have nlt: "n < 70368744177664" using assms(2) by simp
  have rn: "round_to_53 n = n" using nlt by (simp add: round_to_53_def)
  have bounds: "k * 9007199254740992 \<le> R \<and> R < Suc k * 9007199254740992"
  proof (cases "M < 9007199254740992")
    case True
    then have "n = 1" using assms(1) by (simp add: M_def)
    then have "M = 8917127262193582" "k = 0" by (simp_all add: M_def k_def)
    then show ?thesis by (simp add: R_def round_to_53_def)
  next
    case False
    then have lo: "2 ^ 53 \<le> M" by simp
    have "M < 70368744177664 * 9007199254740992" using nlt by (simp add: M_def)
    then have hi: "M < 2 ^ 106" by simp
    from round_to_53_props [OF lo hi] obtain h where h: "0 < h"
      "h * 2 ^ 53 \<le> M" "M < h * 2 ^ 54" "M \<le> R + h" "R \<le> M + h"
      "(2 * h) dvd R" "(2 * h) dvd 2 ^ 53"
      unfolding R_def by blast
    have h1: "h * 9007199254740992 \<le> M" and h2: "M < h * 18014398509481984"
      using h(2,3) by simp_all
    have upper: "R < Suc k * 9007199254740992"
      using h1 h(5) nk jlt nlt by (simp add: M_def)
    have lower: "k * 9007199254740992 \<le> R"
    proof (rule ccontr)
      assume "\<not> k * 9007199254740992 \<le> R"
      then have lt: "R < k * 2 ^ 53" by simp
      have "(2 * h) dvd k * 2 ^ 53" using h(7) by (rule dvd_mult)
      with h(6) lt have "R + 2 * h \<le> k * 2 ^ 53" by (intro multiples_step)
      then have "R + 2 * h \<le> k * 9007199254740992" by simp
      then show False
        using h(1) h1 h2 h(4) nk jlt nlt by (simp add: M_def)
    qed
    from lower upper show ?thesis ..
  qed
  have "int_of_product n double_0_99 = R div 9007199254740992"
    by (simp add: int_of_product_def rn R_def M_def double_0_99_def)
  also have "\<dots> = k"
    using bounds by (intro div_nat_eqI) (simp_all add: mult.commute)
  finally show ?thesis by (simp only: k_def)
qed

lemma double_literals_nearest:
  "2 ^ 52 \<le> double_0_9 \<and> double_0_9 < 2 ^ 53 \<and>
     \<bar>int double_0_9 * 10 - 9 * 2 ^ 53\<bar> \<le> 5 \<and>
   2 ^ 52 \<le> double_0_95 \<and> double_0_95 < 2 ^ 53 \<and>
     \<bar>int double_0_95 * 20 - 19 * 2 ^ 53\<bar> \<le> 10 \<and>
   2 ^ 52 \<le> double_0_99 \<and> double_0_99 < 2 ^ 53 \<and>
     \<bar>int double_0_99 * 100 - 99 * 2 ^ 53\<bar> \<le> 50"
  by (simp add: double_0_9_def double_0_95_def double_0_99_def)

lemma finalize_latency_closed:
  assumes "elapsed \<noteq> []" and "length elapsed < 2 ^ 46"
  shows "finalize_latency elapsed =
     Inr (Some \<lparr>medianResTime = sort elapsed ! (length elapsed div 2),
                minResTime = Min (set elapsed),
                maxResTime = Max (set elapsed),
                pct90 = sort elapsed ! (9 * length elapsed div 10),
                pct95 = sort elapsed ! (19 * length elapsed div 20),
                pct99 = sort elapsed ! (99 * length elapsed div 100)\<rparr>)"
proof -
  from assms(1) obtain t ts where e: "elapsed = t # ts" by (cases elapsed) auto
  have pos: "0 < length elapsed" using assms(1) by simp
  have mn: "fold min ts t = Min (set elapsed)" by (simp only: e Min.set_eq_fold)
  have mx: "fold max ts t = Max (set elapsed)" by (simp only: e Max.set_eq_fold)
  have i: "length elapsed div 2 < length elapsed" "9 * length elapsed div 10 < length elapsed"
    "19 * length elapsed div 20 < length elapsed" "99 * length elapsed div 100 < length elapsed"
    using pos by arith+
  have "finalize_latency elapsed =
      (let sorted_times = sort elapsed; n = length sorted_times
       in case py_index sorted_times (length elapsed div 2) of
            Inl e \<Rightarrow> Inl e
          | Inr median \<Rightarrow>
       (case py_index sorted_times (int_of_product n double_0_9) of
            Inl e \<Rightarrow> Inl e
          | Inr p90 \<Rightarrow>
       (case py_index sorted_times (int_of_product n double_0_95) of
            Inl e \<Rightarrow> Inl e
          | Inr p95 \<Rightarrow>
       (case py_index sorted_times (int_of_product n double_0_99) of
            Inl e \<Rightarrow> Inl e
          | Inr p99 \<Rightarrow>
              Inr (Some \<lparr>medianResTime = median,
                         minResTime = fold min ts t,
                         maxResTime = fold max ts t,
                         pct90 = p90, pct95 = p95, pct99 = p99\<rparr>)))))"
    unfolding finalize_latency_def by (simp only: e list.case)
  then show ?thesis
    using i by (simp add: Let_def py_index_def mn mx int_of_product_0_9 [OF pos assms(2)]
        int_of_product_0_95 [OF pos assms(2)] int_of_product_0_99 [OF pos assms(2)])
qed

text \<open>
  Claim C7. For a non-empty list of elapsed times (of fewer than \<open>2^46\<close> entries, far
  beyond what a list in memory can hold) the three indices computed in floating point are
  \<open>\<lfloor>p * count\<rfloor>\<close> for \<open>p\<close> = 9/10, 19/20, 99/100, which is already at most \<open>count - 1\<close>,
  so clamping changes nothing and every index is in bounds; the percentile is the element of
  the ascending sort at that index.
\<close>

theorem percentile_index_is_clamped_floor:
  assumes "elapsed \<noteq> []" and "length elapsed < 2 ^ 46"
  shows "int_of_product (length elapsed) double_0_9 =
           min (9 * length elapsed div 10) (length elapsed - 1) \<and>
         int_of_product (length elapsed) double_0_95 =
           min (19 * length elapsed div 20) (length elapsed - 1) \<and>
         int_of_product (length elapsed) double_0_99 =
           min (99 * length elapsed div 100) (length elapsed - 1) \<and>
         (\<exists>s. finalize_latency elapsed = Inr (Some s) \<and>
           pct90 s = sort elapsed ! min (9 * length elapsed div 10) (length elapsed - 1) \<and>
           pct95 s = sort elapsed ! min (19 * length elapsed div 20) (length elapsed - 1) \<and>
           pct99 s = sort elapsed ! min (99 * length elapsed div 100) (length elapsed - 1))"
proof -
  have pos: "0 < length elapsed" using assms(1) by simp
  have m: "min (9 * length elapsed div 10) (length elapsed - 1) = 9 * length elapsed div 10"
    "min (19 * length elapsed div 20) (length elapsed - 1) = 19 * length elapsed div 20"
    "min (99 * length elapsed div 100) (length elapsed - 1) = 99 * length elapsed div 100"
    using pos by arith+
  show ?thesis
    unfolding m
    by (simp add: finalize_latency_closed [OF assms] int_of_product_0_9 [OF pos assms(2)]
        int_of_product_0_95 [OF pos assms(2)] int_of_product_0_99 [OF pos assms(2)])
qed


lemma twenty_samples_wf: "twenty_samples \<noteq> [] \<and> length twenty_samples < 2 ^ 46"
  by (simp add: twenty_samples_def)

lemma sort_twenty: "sort twenty_samples = [12, 15, 17, 19, 33, 42, 47, 55, 60, 64, 73, 75, 88, 91, 101, 120, 230, 250, 300, 500]"
  by (simp add: twenty_samples_def)

theorem percentile_index_is_clamped_floor_witness:
  "int_of_product 20 double_0_9 = 18 \<and> int_of_product 20 double_0_95 = 19 \<and>
   int_of_product 20 double_0_99 = 19 \<and>
   (\<exists>s. finalize_latency twenty_samples = Inr (Some s) \<and> pct90 s = 300 \<and> pct95 s = 500 \<and> pct99 s = 500)"
proof -
  have l: "length twenty_samples = 20" by (simp add: twenty_samples_def)
  have a: "twenty_samples \<noteq> []" and b: "length twenty_samples < 2 ^ 46"
    using twenty_samples_wf by simp_all
  show ?thesis
    using percentile_index_is_clamped_floor [OF a b] unfolding l sort_twenty by simp
qed


section \<open>The matcher and the texts a pattern can match\<close>















section \<open>Properties of the report patcher\<close>














declare each_match.simps [simp del]
















end
